theory Spec2Isabelle
  imports Main "HOL-Library.Word" "HOL-Library.Monad_Syntax"
begin

unbundle bit_operations_syntax

section \<open>Build configuration\<close>

text \<open>
  The model follows \<^verbatim>\<open>estalloc.c\<close> as it is compiled by default on a 64-bit
  platform: \<^verbatim>\<open>ESTALLOC_24BIT\<close> (so \<^verbatim>\<open>ESTALLOC_MEMSIZE_T\<close> is \<^verbatim>\<open>uint32_t\<close>),
  \<^verbatim>\<open>ESTALLOC_ALIGNMENT == 8\<close>, \<^verbatim>\<open>PLATFORM_64BIT\<close> (so \<^verbatim>\<open>ESTALLOC_IGNORE_LSBS\<close> is 5),
  8-byte pointers, \<^verbatim>\<open>unsigned int\<close> of 32 bits. The switch \<^verbatim>\<open>ESTALLOC_DEBUG\<close> is
  the boolean argument \<open>dbg\<close> of the functions whose text depends on it.

  Sizes (\<^verbatim>\<open>ESTALLOC_MEMSIZE_T\<close>, \<^verbatim>\<open>unsigned int\<close>) are 32-bit words, so every
  addition and subtraction wraps as in C. Small counters (\<^verbatim>\<open>index\<close>, \<^verbatim>\<open>fli\<close>,
  \<^verbatim>\<open>sli\<close>, the results of \<^verbatim>\<open>nlz16\<close> and \<^verbatim>\<open>nlz8\<close>) are natural numbers: they stay
  far below \<open>2^31\<close>. Pointers are natural numbers (byte addresses), \<open>NULL\<close> is 0.

  A result of type \<open>option\<close> is \<open>None\<close> when the C function does not return: an
  \<^verbatim>\<open>assert\<close> fails, or a loop runs forever.
\<close>

abbreviation (input) NULL :: nat where
  "NULL \<equiv> 0"

definition ALIGNMENT_MASK :: "32 word" where
  "ALIGNMENT_MASK = 7"

definition ESTALLOC_FLI_BIT_WIDTH :: nat where
  "ESTALLOC_FLI_BIT_WIDTH = 9"

definition ESTALLOC_SLI_BIT_WIDTH :: nat where
  "ESTALLOC_SLI_BIT_WIDTH = 3"

definition ESTALLOC_IGNORE_LSBS :: nat where
  "ESTALLOC_IGNORE_LSBS = 5"

definition SIZE_FREE_BLOCKS :: nat where
  "SIZE_FREE_BLOCKS = (ESTALLOC_FLI_BIT_WIDTH + 1) * 2 ^ ESTALLOC_SLI_BIT_WIDTH"

definition ESTALLOC_MIN_MEMORY_BLOCK_SIZE :: "32 word" where
  "ESTALLOC_MIN_MEMORY_BLOCK_SIZE = push_bit ESTALLOC_IGNORE_LSBS 1"

text \<open>\<^verbatim>\<open>struct USED_BLOCK { uint32_t size; uint8_t pad[2]; }\<close> has 8 bytes;
  \<^verbatim>\<open>struct FREE_BLOCK\<close> has \<^verbatim>\<open>size\<close> at offset 0, \<^verbatim>\<open>next_free\<close> at 8,
  \<^verbatim>\<open>prev_free\<close> at 16 and \<^verbatim>\<open>top_adrs\<close> at 24: 32 bytes.\<close>

definition sizeof_USED_BLOCK :: nat where
  "sizeof_USED_BLOCK = 8"

definition sizeof_FREE_BLOCK :: nat where
  "sizeof_FREE_BLOCK = 32"

definition sizeof_pointer :: nat where
  "sizeof_pointer = 8"

definition offsetof_next_free :: nat where
  "offsetof_next_free = 8"

definition offsetof_prev_free :: nat where
  "offsetof_prev_free = 16"

text \<open>\<^verbatim>\<open>sizeof(MEMORY_POOL)\<close>: \<^verbatim>\<open>ESTALLOC\<close> is 32 bytes (48 with the profile of
  \<^verbatim>\<open>ESTALLOC_DEBUG\<close>), then \<^verbatim>\<open>size\<close>, the bitmaps (2 + 11 bytes), 3 bytes of
  padding, and 81 pointers from the next multiple of 8.\<close>

definition sizeof_MEMORY_POOL :: "bool \<Rightarrow> nat" where
  "sizeof_MEMORY_POOL dbg = (if dbg then 720 else 704)"

definition FLI :: "nat \<Rightarrow> nat" where
  "FLI x = drop_bit ESTALLOC_SLI_BIT_WIDTH x"

definition SLI :: "nat \<Rightarrow> nat" where
  "SLI x = take_bit ESTALLOC_SLI_BIT_WIDTH x"

definition MSB_BIT1_FLI :: "16 word" where
  "MSB_BIT1_FLI = 0x8000"

definition MSB_BIT1_SLI :: "8 word" where
  "MSB_BIT1_SLI = 0x80"


section \<open>The memory and the pool header\<close>

text \<open>The bytes of the address space, little-endian loads and stores of the 32-bit
  \<^verbatim>\<open>size\<close> field and of 64-bit pointers.\<close>

type_synonym memory = "nat \<Rightarrow> 8 word"

definition load32 :: "memory \<Rightarrow> nat \<Rightarrow> 32 word" where
  "load32 m a = ucast (m a) OR push_bit 8 (ucast (m (a + 1)))
                OR push_bit 16 (ucast (m (a + 2))) OR push_bit 24 (ucast (m (a + 3)))"

definition store32 :: "memory \<Rightarrow> nat \<Rightarrow> 32 word \<Rightarrow> memory" where
  "store32 m a v = m(a := ucast v, a + 1 := ucast (drop_bit 8 v),
                     a + 2 := ucast (drop_bit 16 v), a + 3 := ucast (drop_bit 24 v))"

definition load64 :: "memory \<Rightarrow> nat \<Rightarrow> 64 word" where
  "load64 m a = ucast (m a) OR push_bit 8 (ucast (m (a + 1)))
                OR push_bit 16 (ucast (m (a + 2))) OR push_bit 24 (ucast (m (a + 3)))
                OR push_bit 32 (ucast (m (a + 4))) OR push_bit 40 (ucast (m (a + 5)))
                OR push_bit 48 (ucast (m (a + 6))) OR push_bit 56 (ucast (m (a + 7)))"

definition store64 :: "memory \<Rightarrow> nat \<Rightarrow> 64 word \<Rightarrow> memory" where
  "store64 m a v = m(a := ucast v, a + 1 := ucast (drop_bit 8 v),
                     a + 2 := ucast (drop_bit 16 v), a + 3 := ucast (drop_bit 24 v),
                     a + 4 := ucast (drop_bit 32 v), a + 5 := ucast (drop_bit 40 v),
                     a + 6 := ucast (drop_bit 48 v), a + 7 := ucast (drop_bit 56 v))"

definition load_ptr :: "memory \<Rightarrow> nat \<Rightarrow> nat" where
  "load_ptr m a = unat (load64 m a)"

definition store_ptr :: "memory \<Rightarrow> nat \<Rightarrow> nat \<Rightarrow> memory" where
  "store_ptr m a p = store64 m a (of_nat p)"

text \<open>\<^verbatim>\<open>for (i = 0; i < n; i++) p[i] = v;\<close>\<close>

fun fill :: "memory \<Rightarrow> nat \<Rightarrow> nat \<Rightarrow> 8 word \<Rightarrow> memory" where
  "fill m p 0 v = m"
| "fill m p (Suc n) v = (fill m p n v)(p + n := v)"

record ESTALLOC_STAT =
  stat_total :: "32 word"
  stat_used :: "32 word"
  stat_free :: "32 word"
  stat_frag :: "32 word"

record ESTALLOC_PROF =
  profiling :: "8 word"
  prof_initial :: "32 word"
  prof_max :: "32 word"
  prof_min :: "32 word"

text \<open>\<^verbatim>\<open>struct MEMORY_POOL\<close> (with the fields of its \<^verbatim>\<open>ESTALLOC est\<close>), the address
  \<open>adrs\<close> it lies at, and the bytes \<open>mem\<close> of the buffer behind it.\<close>

record MEMORY_POOL =
  adrs :: nat
  stat :: ESTALLOC_STAT
  prof :: ESTALLOC_PROF
  error_message :: "string option"
  pool_size :: "32 word"
  free_fli_bitmap :: "16 word"
  free_sli_bitmap :: "8 word list"
  free_blocks :: "nat list"
  mem :: memory

definition BPOOL_TOP :: "bool \<Rightarrow> MEMORY_POOL \<Rightarrow> nat" where
  "BPOOL_TOP dbg pool = adrs pool + sizeof_MEMORY_POOL dbg"

definition BPOOL_END :: "MEMORY_POOL \<Rightarrow> nat" where
  "BPOOL_END pool = adrs pool + unat (pool_size pool)"

definition BLOCK_ADRS :: "nat \<Rightarrow> nat" where
  "BLOCK_ADRS p = p - sizeof_USED_BLOCK"


section \<open>Block macros\<close>

definition BLOCK_SIZE :: "memory \<Rightarrow> nat \<Rightarrow> 32 word" where
  "BLOCK_SIZE m p = load32 m p AND NOT ALIGNMENT_MASK"

definition PHYS_NEXT :: "memory \<Rightarrow> nat \<Rightarrow> nat" where
  "PHYS_NEXT m p = p + unat (BLOCK_SIZE m p)"

definition SET_USED_BLOCK :: "memory \<Rightarrow> nat \<Rightarrow> memory" where
  "SET_USED_BLOCK m p = store32 m p (load32 m p OR 1)"

definition SET_FREE_BLOCK :: "memory \<Rightarrow> nat \<Rightarrow> memory" where
  "SET_FREE_BLOCK m p = store32 m p (load32 m p AND NOT 1)"

definition IS_USED_BLOCK :: "memory \<Rightarrow> nat \<Rightarrow> bool" where
  "IS_USED_BLOCK m p = (load32 m p AND 1 \<noteq> 0)"

definition IS_FREE_BLOCK :: "memory \<Rightarrow> nat \<Rightarrow> bool" where
  "IS_FREE_BLOCK m p = (\<not> IS_USED_BLOCK m p)"

definition SET_PREV_USED :: "memory \<Rightarrow> nat \<Rightarrow> memory" where
  "SET_PREV_USED m p = store32 m p (load32 m p OR 2)"

definition SET_PREV_FREE :: "memory \<Rightarrow> nat \<Rightarrow> memory" where
  "SET_PREV_FREE m p = store32 m p (load32 m p AND NOT 2)"

definition IS_PREV_USED :: "memory \<Rightarrow> nat \<Rightarrow> bool" where
  "IS_PREV_USED m p = (load32 m p AND 2 \<noteq> 0)"

definition IS_PREV_FREE :: "memory \<Rightarrow> nat \<Rightarrow> bool" where
  "IS_PREV_FREE m p = (\<not> IS_PREV_USED m p)"

text \<open>The fields \<^verbatim>\<open>p->next_free\<close> and \<^verbatim>\<open>p->prev_free\<close> of a \<^verbatim>\<open>FREE_BLOCK\<close>.\<close>

definition next_free :: "memory \<Rightarrow> nat \<Rightarrow> nat" where
  "next_free m p = load_ptr m (p + offsetof_next_free)"

definition prev_free :: "memory \<Rightarrow> nat \<Rightarrow> nat" where
  "prev_free m p = load_ptr m (p + offsetof_prev_free)"

definition set_next_free :: "memory \<Rightarrow> nat \<Rightarrow> nat \<Rightarrow> memory" where
  "set_next_free m p q = store_ptr m (p + offsetof_next_free) q"

definition set_prev_free :: "memory \<Rightarrow> nat \<Rightarrow> nat \<Rightarrow> memory" where
  "set_prev_free m p q = store_ptr m (p + offsetof_prev_free) q"


section \<open>Size classes\<close>

text \<open>One line of the branch tree of \<^verbatim>\<open>nlz16\<close> and \<^verbatim>\<open>nlz8\<close>:
  \<^verbatim>\<open>if ((x >> t) == 0) { n += k; x <<= k; }\<close>.\<close>

definition nlz_step :: "nat \<Rightarrow> nat \<Rightarrow> nat \<times> 'a::len word \<Rightarrow> nat \<times> 'a word" where
  "nlz_step t k s = (case s of (n, x) \<Rightarrow>
     if drop_bit t x = 0 then (n + k, push_bit k x) else (n, x))"

definition nlz16 :: "16 word \<Rightarrow> nat" where
  "nlz16 x =
     (if x = 0 then 16
      else case nlz_step 14 2 (nlz_step 12 4 (nlz_step 8 8 (1, x))) of
             (n, x) \<Rightarrow> n - unat (drop_bit 15 x))"

definition nlz8 :: "8 word \<Rightarrow> nat" where
  "nlz8 x =
     (if x = 0 then 8
      else case nlz_step 6 2 (nlz_step 4 4 (1, x)) of
             (n, x) \<Rightarrow> n - unat (drop_bit 7 x))"

text \<open>The three local variables of \<^verbatim>\<open>calc_index\<close> after its overflow check, and the
  function itself. Its two assertions are \<open>calc_index_asserts\<close>.\<close>

definition calc_fli :: "32 word \<Rightarrow> nat" where
  "calc_fli alloc_size =
     16 - nlz16 (ucast (drop_bit (ESTALLOC_SLI_BIT_WIDTH + ESTALLOC_IGNORE_LSBS) alloc_size))"

definition calc_shift :: "32 word \<Rightarrow> nat" where
  "calc_shift alloc_size =
     (if calc_fli alloc_size = 0 then ESTALLOC_IGNORE_LSBS
      else ESTALLOC_IGNORE_LSBS - 1 + calc_fli alloc_size)"

definition calc_sli :: "32 word \<Rightarrow> nat" where
  "calc_sli alloc_size =
     unat (drop_bit (calc_shift alloc_size) alloc_size
           AND (push_bit ESTALLOC_SLI_BIT_WIDTH 1 - 1))"

definition calc_overflow :: "32 word \<Rightarrow> bool" where
  "calc_overflow alloc_size =
     (drop_bit (ESTALLOC_FLI_BIT_WIDTH + ESTALLOC_SLI_BIT_WIDTH + ESTALLOC_IGNORE_LSBS)
        alloc_size \<noteq> 0)"

definition calc_index :: "32 word \<Rightarrow> nat" where
  "calc_index alloc_size =
     (if calc_overflow alloc_size then SIZE_FREE_BLOCKS - 1
      else push_bit ESTALLOC_SLI_BIT_WIDTH (calc_fli alloc_size) + calc_sli alloc_size)"

definition calc_index_asserts :: "32 word \<Rightarrow> bool" where
  "calc_index_asserts alloc_size =
     (if calc_overflow alloc_size then True
      else calc_fli alloc_size \<le> ESTALLOC_FLI_BIT_WIDTH
         \<and> calc_sli alloc_size \<le> 2 ^ ESTALLOC_SLI_BIT_WIDTH - 1)"

text \<open>The nominal minimum size of class \<open>c\<close>, as the table at the head of
  \<^verbatim>\<open>estalloc.c\<close> gives it (there for 4 ignored bits): row 0 starts at 0 and has
  steps of \<open>2^ESTALLOC_IGNORE_LSBS\<close>; row \<open>f > 0\<close> starts at
  \<open>2^(f - 1 + SLI + IGNORE)\<close> and has 8 steps.\<close>

definition class_min :: "nat \<Rightarrow> nat" where
  "class_min c =
     (if FLI c = 0 then push_bit ESTALLOC_IGNORE_LSBS (SLI c)
      else push_bit (ESTALLOC_IGNORE_LSBS - 1 + FLI c) (2 ^ ESTALLOC_SLI_BIT_WIDTH + SLI c))"


section \<open>Free-list maintenance\<close>

text \<open>\<^verbatim>\<open>add_free_block\<close>. Its assertion \<^verbatim>\<open>index < SIZE_FREE_BLOCKS\<close> holds for every
  block size (theorem \<open>calc_index_in_bounds\<close>), so it is no branch of the model.\<close>

definition add_free_block :: "MEMORY_POOL \<Rightarrow> nat \<Rightarrow> MEMORY_POOL" where
  "add_free_block pool target =
     (let m = SET_FREE_BLOCK (mem pool) target;
          top_adrs = target + unat (BLOCK_SIZE m target) - sizeof_pointer;
          m = store_ptr m top_adrs target;
          index = calc_index (BLOCK_SIZE m target);
          fli = FLI index;
          sli = SLI index;
          fb = free_fli_bitmap pool OR drop_bit fli MSB_BIT1_FLI;
          sb = (free_sli_bitmap pool)
                 [fli := free_sli_bitmap pool ! fli OR drop_bit sli MSB_BIT1_SLI];
          m = set_prev_free m target NULL;
          m = set_next_free m target (free_blocks pool ! index);
          m = (if next_free m target \<noteq> NULL
               then set_prev_free m (next_free m target) target else m)
      in pool\<lparr>free_fli_bitmap := fb, free_sli_bitmap := sb,
               free_blocks := (free_blocks pool)[index := target], mem := m\<rparr>)"

text \<open>The two bitmap lines shared by \<^verbatim>\<open>remove_free_block\<close> and the unlinking in
  \<^verbatim>\<open>est_malloc\<close>: clear the bit of \<open>sli\<close> in row \<open>fli\<close>, and the bit of the row when
  the row is empty.\<close>

definition clear_bitmaps :: "MEMORY_POOL \<Rightarrow> nat \<Rightarrow> nat \<Rightarrow> MEMORY_POOL" where
  "clear_bitmaps pool fli sli =
     (let sb = (free_sli_bitmap pool)
                 [fli := free_sli_bitmap pool ! fli AND NOT (drop_bit sli MSB_BIT1_SLI)];
          fb = (if sb ! fli = 0
                then free_fli_bitmap pool AND NOT (drop_bit fli MSB_BIT1_FLI)
                else free_fli_bitmap pool)
      in pool\<lparr>free_sli_bitmap := sb, free_fli_bitmap := fb\<rparr>)"

definition remove_free_block :: "MEMORY_POOL \<Rightarrow> nat \<Rightarrow> MEMORY_POOL" where
  "remove_free_block pool target =
     (let m = mem pool;
          pool =
            (if prev_free m target = NULL
             then let index = calc_index (BLOCK_SIZE m target);
                      pool = pool\<lparr>free_blocks :=
                               (free_blocks pool)[index := next_free m target]\<rparr>
                  in if next_free m target = NULL
                     then clear_bitmaps pool (FLI index) (SLI index)
                     else pool
             else pool\<lparr>mem := set_next_free m (prev_free m target) (next_free m target)\<rparr>);
          m = mem pool
      in if next_free m target \<noteq> NULL
         then pool\<lparr>mem := set_prev_free m (next_free m target) (prev_free m target)\<rparr>
         else pool)"


section \<open>Split and merge\<close>

text \<open>\<^verbatim>\<open>split_block\<close> returns the memory and the pointer to the split-off block
  (\<open>NULL\<close>: no split).\<close>

definition split_block :: "memory \<Rightarrow> nat \<Rightarrow> 32 word \<Rightarrow> (memory \<times> nat) option" where
  "split_block m target sz =
     (if \<not> (BLOCK_SIZE m target \<ge> sz) then None
      else if BLOCK_SIZE m target - sz \<le> ESTALLOC_MIN_MEMORY_BLOCK_SIZE then Some (m, NULL)
      else let split = target + unat sz;
               m = store32 m split (BLOCK_SIZE m target - sz);
               m = store32 m target (sz OR (load32 m target AND ALIGNMENT_MASK))
           in Some (m, split))"

definition merge_block :: "memory \<Rightarrow> nat \<Rightarrow> nat \<Rightarrow> memory option" where
  "merge_block m target nxt =
     (if \<not> (target < nxt) then None
      else Some (store32 m target (load32 m target + BLOCK_SIZE m nxt)))"


section \<open>Profiling and statistics (\<^verbatim>\<open>ESTALLOC_DEBUG\<close>)\<close>

text \<open>The loop of \<^verbatim>\<open>take_profile\<close>: the sum of the sizes of the used blocks.\<close>

partial_function (option) take_profile_loop ::
  "memory \<Rightarrow> nat \<Rightarrow> nat \<Rightarrow> 32 word \<Rightarrow> 32 word option" where
  "take_profile_loop m e block used =
     (if block < e
      then take_profile_loop m e (PHYS_NEXT m block)
             (if \<not> IS_FREE_BLOCK m block then used + BLOCK_SIZE m block else used)
      else Some used)"

text \<open>\<^verbatim>\<open>take_profile\<close> works on \<^verbatim>\<open>ESTALLOC_PROF prof = est->prof\<close>, a copy of the
  structure: what it assigns to \<open>prof\<close> is lost when it returns.\<close>

definition take_profile :: "MEMORY_POOL \<Rightarrow> MEMORY_POOL option" where
  "take_profile pool =
     do {
       used \<leftarrow> take_profile_loop (mem pool) (BPOOL_END pool) (BPOOL_TOP True pool) 0;
       let prf = prof pool;
       let prf = (if prof_max prf < used then prf\<lparr>prof_max := used\<rparr> else prf);
       let prf = (if used < prof_min prf then prf\<lparr>prof_min := used\<rparr> else prf);
       Some pool
     }"

text \<open>The macro \<^verbatim>\<open>PROFILE()\<close>; empty without \<^verbatim>\<open>ESTALLOC_DEBUG\<close>.\<close>

definition PROFILE :: "bool \<Rightarrow> MEMORY_POOL \<Rightarrow> MEMORY_POOL option" where
  "PROFILE dbg pool =
     (if dbg \<and> profiling (prof pool) \<noteq> 0 then take_profile pool else Some pool)"

definition est_start_profiling :: "MEMORY_POOL \<Rightarrow> MEMORY_POOL option" where
  "est_start_profiling pool =
     (let prf = prof pool
      in if profiling prf \<noteq> 0 then Some pool
         else do {
           let prf = prf\<lparr>profiling := 1\<rparr>;
           let prf = prf\<lparr>prof_max := 0\<rparr>;
           pool \<leftarrow> PROFILE True pool;
           let prf = prf\<lparr>prof_min := prof_max prf\<rparr>;
           let prf = prf\<lparr>prof_initial := prof_min prf\<rparr>;
           Some pool
         })"

definition est_stop_profiling :: "MEMORY_POOL \<Rightarrow> MEMORY_POOL" where
  "est_stop_profiling pool = pool\<lparr>prof := (prof pool)\<lparr>profiling := 0\<rparr>\<rparr>"

text \<open>The loop of \<^verbatim>\<open>est_take_statistics\<close>; \<open>flag\<close> is \<^verbatim>\<open>flag_used_free\<close>.\<close>

partial_function (option) take_statistics_loop ::
  "memory \<Rightarrow> nat \<Rightarrow> nat \<Rightarrow> ESTALLOC_STAT \<Rightarrow> bool \<Rightarrow> ESTALLOC_STAT option" where
  "take_statistics_loop m e block st flag =
     (if block < e
      then let st = (if IS_FREE_BLOCK m block
                     then st\<lparr>stat_free := stat_free st + BLOCK_SIZE m block\<rparr>
                     else st\<lparr>stat_used := stat_used st + BLOCK_SIZE m block\<rparr>);
               st = (if flag \<noteq> IS_USED_BLOCK m block
                     then st\<lparr>stat_frag := stat_frag st + 1\<rparr> else st)
           in take_statistics_loop m e (PHYS_NEXT m block) st (IS_USED_BLOCK m block)
      else Some st)"

definition est_take_statistics :: "MEMORY_POOL \<Rightarrow> MEMORY_POOL option" where
  "est_take_statistics pool =
     do {
       let block = BPOOL_TOP True pool;
       let st = \<lparr>stat_total = pool_size pool, stat_used = 0, stat_free = 0, stat_frag = - 1\<rparr>;
       st \<leftarrow> take_statistics_loop (mem pool) (BPOOL_END pool) block st
               (IS_USED_BLOCK (mem pool) block);
       Some (pool\<lparr>stat := st\<rparr>)
     }"


section \<open>\<^verbatim>\<open>est_init\<close>\<close>

text \<open>\<open>m0\<close> holds the bytes of the caller's buffer before the call. Of the assertions
  of \<^verbatim>\<open>est_init\<close>, those on the configuration hold in this build; the alignment of
  \<open>ptr\<close> and \<^verbatim>\<open>size != 0\<close> are checked (\<^verbatim>\<open>size <= (ESTALLOC_MEMSIZE_T)(~0)\<close> holds
  for every 32-bit \<open>size\<close>).\<close>

definition est_init :: "bool \<Rightarrow> memory \<Rightarrow> nat \<Rightarrow> 32 word \<Rightarrow> MEMORY_POOL option" where
  "est_init dbg m0 ptr sz =
     (if \<not> (unat ESTALLOC_MIN_MEMORY_BLOCK_SIZE \<ge> sizeof_FREE_BLOCK) then None
      else if \<not> (sizeof_MEMORY_POOL dbg mod 8 = 0) then None
      else if \<not> (ptr mod 8 = 0) then None
      else if \<not> (sz \<noteq> 0) then None
      else
        let sz = sz AND NOT ALIGNMENT_MASK;
            memory_pool = \<lparr>adrs = ptr,
               stat = \<lparr>stat_total = 0, stat_used = 0, stat_free = 0, stat_frag = 0\<rparr>,
               prof = \<lparr>profiling = 0, prof_initial = 0, prof_max = 0, prof_min = 0\<rparr>,
               error_message = None,
               pool_size = sz,
               free_fli_bitmap = 0,
               free_sli_bitmap = replicate (ESTALLOC_FLI_BIT_WIDTH + 1 + 1) 0,
               free_blocks = replicate (SIZE_FREE_BLOCKS + 1) NULL,
               mem = m0\<rparr>;
            sentinel_size = (of_nat sizeof_USED_BLOCK :: 32 word);
            sentinel_size = sentinel_size + (- sentinel_size AND ALIGNMENT_MASK);
            free_size = sz - of_nat (sizeof_MEMORY_POOL dbg) - sentinel_size;
            free_block = BPOOL_TOP dbg memory_pool;
            used_block = free_block + unat free_size;
            m = store32 m0 free_block (free_size OR 2);
            m = store32 m used_block (sentinel_size OR 1)
        in Some (add_free_block (memory_pool\<lparr>mem := m\<rparr>) free_block))"


section \<open>\<^verbatim>\<open>est_malloc\<close>\<close>

text \<open>The first lines of \<^verbatim>\<open>est_malloc\<close> and of \<^verbatim>\<open>est_realloc\<close>: the block size for a
  request, in \<^verbatim>\<open>ESTALLOC_MEMSIZE_T\<close> arithmetic.\<close>

definition request_alloc_size :: "32 word \<Rightarrow> 32 word" where
  "request_alloc_size sz =
     (let alloc_size = sz + of_nat sizeof_USED_BLOCK;
          alloc_size = alloc_size + (- alloc_size AND ALIGNMENT_MASK)
      in if alloc_size < ESTALLOC_MIN_MEMORY_BLOCK_SIZE
         then ESTALLOC_MIN_MEMORY_BLOCK_SIZE else alloc_size)"

text \<open>From the label \<^verbatim>\<open>SPLIT_BLOCK\<close> to the end of \<^verbatim>\<open>est_malloc\<close>.\<close>

definition malloc_split_block ::
  "bool \<Rightarrow> MEMORY_POOL \<Rightarrow> nat \<Rightarrow> 32 word \<Rightarrow> (MEMORY_POOL \<times> nat) option" where
  "malloc_split_block dbg pool target alloc_size =
     do {
       (m, release) \<leftarrow> split_block (mem pool) target alloc_size;
       let pool = (if release \<noteq> NULL
                   then add_free_block (pool\<lparr>mem := SET_PREV_USED m release\<rparr>) release
                   else pool\<lparr>mem := SET_PREV_USED m (PHYS_NEXT m target)\<rparr>);
       let pool = pool\<lparr>mem := SET_USED_BLOCK (mem pool) target\<rparr>;
       let pool = (if dbg
                   then pool\<lparr>mem := fill (mem pool) (target + sizeof_USED_BLOCK)
                                       (unat alloc_size - sizeof_USED_BLOCK) 0xaa\<rparr>
                   else pool);
       pool \<leftarrow> PROFILE dbg pool;
       Some (pool, target + sizeof_USED_BLOCK)
     }"

text \<open>From the label \<^verbatim>\<open>FOUND_TARGET_BLOCK\<close>: the head \<open>target\<close> of list \<open>index\<close> is
  unlinked.\<close>

definition malloc_found_target_block ::
  "bool \<Rightarrow> MEMORY_POOL \<Rightarrow> nat \<Rightarrow> 32 word \<Rightarrow> nat \<Rightarrow> nat \<Rightarrow> nat
     \<Rightarrow> (MEMORY_POOL \<times> nat) option" where
  "malloc_found_target_block dbg pool target alloc_size index fli sli =
     (if \<not> (BLOCK_SIZE (mem pool) target \<ge> alloc_size) then None
      else
        let nf = next_free (mem pool) target;
            pool = pool\<lparr>free_blocks := (free_blocks pool)[index := nf]\<rparr>;
            pool = (if nf = NULL then clear_bitmaps pool fli sli
                    else pool\<lparr>mem := set_prev_free (mem pool) nf NULL\<rparr>)
        in malloc_split_block dbg pool target alloc_size)"

text \<open>From the label \<^verbatim>\<open>FOUND_FLI_SLI\<close>.\<close>

definition malloc_found_fli_sli ::
  "bool \<Rightarrow> MEMORY_POOL \<Rightarrow> 32 word \<Rightarrow> nat \<Rightarrow> nat \<Rightarrow> (MEMORY_POOL \<times> nat) option" where
  "malloc_found_fli_sli dbg pool alloc_size fli sli =
     (let index = push_bit ESTALLOC_SLI_BIT_WIDTH fli + sli
      in if \<not> (index \<le> SIZE_FREE_BLOCKS) then None
         else let target = free_blocks pool ! index
              in if target = NULL then Some (pool, NULL)
                 else malloc_found_target_block dbg pool target alloc_size index fli sli)"

text \<open>The first-fit loop: the first block of the list from \<open>target\<close> with room for
  \<open>alloc_size\<close>, or \<open>NULL\<close>.\<close>

partial_function (option) first_fit :: "memory \<Rightarrow> nat \<Rightarrow> 32 word \<Rightarrow> nat option" where
  "first_fit m target alloc_size =
     (if target = NULL then Some NULL
      else if BLOCK_SIZE m target \<ge> alloc_size then Some target
      else first_fit m (next_free m target) alloc_size)"

definition est_malloc :: "bool \<Rightarrow> MEMORY_POOL \<Rightarrow> 32 word \<Rightarrow> (MEMORY_POOL \<times> nat) option" where
  "est_malloc dbg pool sz =
     (let alloc_size = request_alloc_size sz;
          index = calc_index alloc_size;
          target = free_blocks pool ! index
      in if target \<noteq> NULL \<and> BLOCK_SIZE (mem pool) target \<ge> alloc_size
         then malloc_found_target_block dbg pool target alloc_size index (FLI index) (SLI index)
         else
           let index = index + 1;
               target = free_blocks pool ! index;
               fli = FLI index;
               sli = SLI index
           in if target \<noteq> NULL
              then malloc_found_target_block dbg pool target alloc_size index fli sli
              else
                let masked = (ucast (free_sli_bitmap pool ! fli) :: 16 word)
                               AND (ucast (drop_bit sli MSB_BIT1_SLI) - 1)
                in if masked \<noteq> 0
                   then malloc_found_fli_sli dbg pool alloc_size fli (nlz8 (ucast masked))
                   else
                     let masked = free_fli_bitmap pool AND (drop_bit fli MSB_BIT1_FLI - 1)
                     in if masked \<noteq> 0
                        then let fli = nlz16 masked;
                                 sli = nlz8 (free_sli_bitmap pool ! fli)
                             in malloc_found_fli_sli dbg pool alloc_size fli sli
                        else
                          do {
                            target \<leftarrow> first_fit (mem pool) (free_blocks pool ! (index - 1))
                                        alloc_size;
                            if target = NULL then Some (pool, NULL)
                            else malloc_split_block dbg (remove_free_block pool target)
                                   target alloc_size
                          })"


section \<open>\<^verbatim>\<open>est_permalloc\<close> and \<^verbatim>\<open>est_calloc\<close>\<close>

text \<open>The loop \<^verbatim>\<open>do { prev = tail; tail = PHYS_NEXT(tail); } while (PHYS_NEXT(tail) <
  BPOOL_END(pool));\<close> returns \<open>(prev, tail)\<close>.\<close>

partial_function (option) find_tail :: "memory \<Rightarrow> nat \<Rightarrow> nat \<Rightarrow> (nat \<times> nat) option" where
  "find_tail m e tail =
     (let prev = tail;
          tail = PHYS_NEXT m tail
      in if PHYS_NEXT m tail < e then find_tail m e tail else Some (prev, tail))"

definition est_permalloc ::
  "bool \<Rightarrow> MEMORY_POOL \<Rightarrow> 32 word \<Rightarrow> (MEMORY_POOL \<times> nat) option" where
  "est_permalloc dbg pool sz =
     (let alloc_size = sz + (- sz AND ALIGNMENT_MASK)
      in do {
        (prev, tail) \<leftarrow> find_tail (mem pool) (BPOOL_END pool) (BPOOL_TOP dbg pool);
        if IS_USED_BLOCK (mem pool) prev then est_malloc dbg pool sz
        else if (ucast (BLOCK_SIZE (mem pool) prev) - of_nat sizeof_USED_BLOCK :: 64 word)
                  < ucast alloc_size
        then est_malloc dbg pool sz
        else
          let pool = remove_free_block pool prev;
              m = mem pool;
              free_size = BLOCK_SIZE m prev - alloc_size
          in if free_size \<le> ESTALLOC_MIN_MEMORY_BLOCK_SIZE
             then let m = store32 m prev (load32 m prev + BLOCK_SIZE m tail);
                      m = SET_USED_BLOCK m prev;
                      tail = prev
                  in Some (pool\<lparr>mem := m\<rparr>, tail + sizeof_USED_BLOCK)
             else let tail_size = load32 m tail + alloc_size;
                      tail = tail - unat alloc_size;
                      m = store32 m tail tail_size;
                      m = store32 m prev (load32 m prev - alloc_size);
                      pool = add_free_block (pool\<lparr>mem := m\<rparr>) prev;
                      pool = (if dbg
                              then pool\<lparr>mem := fill (mem pool) (tail + sizeof_USED_BLOCK)
                                                  (unat alloc_size) 0xaa\<rparr>
                              else pool)
                  in Some (pool, tail + sizeof_USED_BLOCK)
      })"

definition est_calloc ::
  "bool \<Rightarrow> MEMORY_POOL \<Rightarrow> 32 word \<Rightarrow> 32 word \<Rightarrow> (MEMORY_POOL \<times> nat) option" where
  "est_calloc dbg pool nmemb sz =
     (let total_size = nmemb * sz
      in do {
        (pool, ptr) \<leftarrow> est_malloc dbg pool total_size;
        if ptr \<noteq> NULL
        then Some (pool\<lparr>mem := fill (mem pool) ptr (unat total_size) 0\<rparr>, ptr)
        else Some (pool, ptr)
      })"


section \<open>\<^verbatim>\<open>est_free\<close>\<close>

text \<open>The loop of the pointer check of \<^verbatim>\<open>ESTALLOC_DEBUG\<close>: walk the blocks until
  \<open>target\<close> or the last block.\<close>

partial_function (option) free_find_block :: "memory \<Rightarrow> nat \<Rightarrow> nat \<Rightarrow> nat \<Rightarrow> nat option" where
  "free_find_block m e block target =
     (if block = target then Some block
      else if PHYS_NEXT m block \<ge> e then Some block
      else free_find_block m e (PHYS_NEXT m block) target)"

text \<open>The block of \<^verbatim>\<open>est_free\<close> under \<^verbatim>\<open>ESTALLOC_DEBUG\<close>. The result \<open>Inl pool\<close> is a
  return from \<^verbatim>\<open>est_free\<close> with an error message; \<open>Inr pool\<close> goes on. The loop that
  fills the block with \<open>0xff\<close> compares the 32-bit \<open>i\<close> with
  \<^verbatim>\<open>BLOCK_SIZE(target) - sizeof(USED_BLOCK)\<close> in 64 bits: it never ends when the block
  size is below 8.\<close>

definition free_debug_check :: "MEMORY_POOL \<Rightarrow> nat \<Rightarrow> (MEMORY_POOL + MEMORY_POOL) option" where
  "free_debug_check pool ptr =
     (let target = BLOCK_ADRS ptr;
          m = mem pool
      in if target < BPOOL_TOP True pool \<or> target > BPOOL_END pool
         then Some (Inl (pool\<lparr>error_message :=
                Some ''est_free(): Outside memory pool address was specified.''\<rparr>))
         else do {
           block \<leftarrow> free_find_block m (BPOOL_END pool) (BPOOL_TOP True pool) target;
           if block = target
           then if IS_FREE_BLOCK m block
                then Some (Inl (pool\<lparr>error_message :=
                       Some ''est_free(): double free detected.''\<rparr>))
                else if PHYS_NEXT m block \<ge> BPOOL_END pool
                then Some (Inl (pool\<lparr>error_message :=
                       Some ''est_free(): permalloc address was specified.''\<rparr>))
                else if unat (BLOCK_SIZE m target) < sizeof_USED_BLOCK then None
                else Some (Inr (pool\<lparr>mem := fill m ptr
                                   (unat (BLOCK_SIZE m target) - sizeof_USED_BLOCK) 0xff,
                                 error_message := None\<rparr>))
           else if block < target
           then Some (Inl (pool\<lparr>error_message :=
                  Some ''est_free(): permalloc address was specified.''\<rparr>))
           else Some (Inl (pool\<lparr>error_message := Some ''est_free(): Illegal address.''\<rparr>))
         })"

text \<open>\<^verbatim>\<open>est_free\<close> after the debug block.\<close>

definition free_block :: "bool \<Rightarrow> MEMORY_POOL \<Rightarrow> nat \<Rightarrow> MEMORY_POOL option" where
  "free_block dbg pool ptr =
     (let target = BLOCK_ADRS ptr;
          nxt = PHYS_NEXT (mem pool) target
      in do {
        pool \<leftarrow> (if IS_FREE_BLOCK (mem pool) nxt
                 then do {
                   let pool = remove_free_block pool nxt;
                   m \<leftarrow> merge_block (mem pool) target nxt;
                   Some (pool\<lparr>mem := m\<rparr>)
                 }
                 else Some (pool\<lparr>mem := SET_PREV_FREE (mem pool) nxt\<rparr>));
        (pool, target) \<leftarrow>
          (if IS_PREV_FREE (mem pool) target
           then let prev = load_ptr (mem pool) (target - sizeof_pointer)
                in if \<not> IS_FREE_BLOCK (mem pool) prev then None
                   else do {
                     let pool = remove_free_block pool prev;
                     m \<leftarrow> merge_block (mem pool) prev target;
                     Some (pool\<lparr>mem := m\<rparr>, prev)
                   }
           else Some (pool, target));
        PROFILE dbg (add_free_block pool target)
      })"

definition est_free :: "bool \<Rightarrow> MEMORY_POOL \<Rightarrow> nat \<Rightarrow> MEMORY_POOL option" where
  "est_free dbg pool ptr =
     (if ptr = NULL then Some pool
      else if dbg
      then do {
        r \<leftarrow> free_debug_check pool ptr;
        case r of Inl pool \<Rightarrow> Some pool | Inr pool \<Rightarrow> free_block dbg pool ptr
      }
      else free_block dbg pool ptr)"


section \<open>\<^verbatim>\<open>est_realloc\<close> and \<^verbatim>\<open>est_usable_size\<close>\<close>

text \<open>The copy loop of \<^verbatim>\<open>ALLOC_AND_COPY\<close>. \<open>target\<close> is volatile: its size is read
  again in every round, and compared in 64 bits with the 32-bit counter \<open>i\<close>.\<close>

partial_function (option) realloc_copy ::
  "memory \<Rightarrow> nat \<Rightarrow> nat \<Rightarrow> nat \<Rightarrow> 32 word \<Rightarrow> memory option" where
  "realloc_copy m new_ptr ptr target i =
     (if (ucast i :: 64 word) < ucast (BLOCK_SIZE m target) - of_nat sizeof_USED_BLOCK
      then realloc_copy (m(new_ptr + unat i := m (ptr + unat i))) new_ptr ptr target (i + 1)
      else Some m)"

definition realloc_alloc_and_copy ::
  "bool \<Rightarrow> MEMORY_POOL \<Rightarrow> nat \<Rightarrow> 32 word \<Rightarrow> (MEMORY_POOL \<times> nat) option" where
  "realloc_alloc_and_copy dbg pool ptr sz =
     do {
       (pool, new_ptr) \<leftarrow> est_malloc dbg pool sz;
       if new_ptr = NULL then Some (pool, NULL)
       else do {
         m \<leftarrow> realloc_copy (mem pool) new_ptr ptr (BLOCK_ADRS ptr) 0;
         pool \<leftarrow> est_free dbg (pool\<lparr>mem := m\<rparr>) ptr;
         Some (pool, new_ptr)
       }
     }"

text \<open>\<^verbatim>\<open>est_realloc\<close> from the line \<^verbatim>\<open>next = PHYS_NEXT(target)\<close> before \<^verbatim>\<open>try shrink\<close>.\<close>

definition realloc_shrink ::
  "bool \<Rightarrow> MEMORY_POOL \<Rightarrow> nat \<Rightarrow> 32 word \<Rightarrow> (MEMORY_POOL \<times> nat) option" where
  "realloc_shrink dbg pool ptr alloc_size =
     (let target = BLOCK_ADRS ptr;
          nxt = PHYS_NEXT (mem pool) target
      in do {
        (m, release) \<leftarrow> split_block (mem pool) target alloc_size;
        if release = NULL
        then do {
          pool \<leftarrow> PROFILE dbg (pool\<lparr>mem := SET_PREV_USED m nxt\<rparr>);
          Some (pool, ptr)
        }
        else do {
          let pool = pool\<lparr>mem := SET_PREV_USED m release\<rparr>;
          pool \<leftarrow> (if IS_FREE_BLOCK (mem pool) nxt
                   then do {
                     let pool = remove_free_block pool nxt;
                     m \<leftarrow> merge_block (mem pool) release nxt;
                     Some (pool\<lparr>mem := m\<rparr>)
                   }
                   else Some (pool\<lparr>mem := SET_PREV_FREE (mem pool) nxt\<rparr>));
          pool \<leftarrow> PROFILE dbg (add_free_block pool release);
          Some (pool, ptr)
        }
      })"

definition est_realloc ::
  "bool \<Rightarrow> MEMORY_POOL \<Rightarrow> nat \<Rightarrow> 32 word \<Rightarrow> (MEMORY_POOL \<times> nat) option" where
  "est_realloc dbg pool ptr sz =
     (if ptr = NULL then est_malloc dbg pool sz
      else
        let target = BLOCK_ADRS ptr;
            alloc_size = request_alloc_size sz;
            m = mem pool
        in if alloc_size > BLOCK_SIZE m target
           then let nxt = PHYS_NEXT m target
                in if IS_USED_BLOCK m nxt then realloc_alloc_and_copy dbg pool ptr sz
                   else if BLOCK_SIZE m target + BLOCK_SIZE m nxt < alloc_size
                   then realloc_alloc_and_copy dbg pool ptr sz
                   else do {
                     let pool = remove_free_block pool nxt;
                     m \<leftarrow> merge_block (mem pool) target nxt;
                     realloc_shrink dbg (pool\<lparr>mem := m\<rparr>) ptr alloc_size
                   }
           else realloc_shrink dbg pool ptr alloc_size)"

definition est_usable_size :: "memory \<Rightarrow> nat \<Rightarrow> 32 word" where
  "est_usable_size m ptr = BLOCK_SIZE m (BLOCK_ADRS ptr) - of_nat sizeof_USED_BLOCK"


section \<open>Definitions for the proofs\<close>

text \<open>\<open>same_on m m' lo hi\<close>: the two memories agree on the addresses from \<open>lo\<close> up to
  \<open>hi\<close>.\<close>

definition same_on :: "memory \<Rightarrow> memory \<Rightarrow> nat \<Rightarrow> nat \<Rightarrow> bool" where
  "same_on m m' lo hi = (\<forall>x. lo \<le> x \<and> x < hi \<longrightarrow> m' x = m x)"

text \<open>The invariant of the branch tree of \<open>nlz16\<close> and \<open>nlz8\<close>: \<open>x\<close> is the argument
  \<open>v\<close> shifted left by \<open>n - 1\<close>, without loss, and is at least \<open>2^lo\<close>.\<close>

definition nlz_inv :: "nat \<Rightarrow> nat \<Rightarrow> nat \<times> 'a::len word \<Rightarrow> bool" where
  "nlz_inv v lo s = (case s of (n, x) \<Rightarrow>
     1 \<le> n \<and> unat x = v * 2 ^ (n - 1) \<and> 2 ^ lo \<le> unat x)"


section \<open>Example pools\<close>

text \<open>\<open>pool0\<close> is the pool that \<open>est_init\<close> makes of 1 MiB of zeroed memory at address
  4096, as the test program does (\<open>POOL_SIZE = 1048575\<close>), without \<^verbatim>\<open>ESTALLOC_DEBUG\<close>;
  \<open>pool1\<close> is \<open>pool0\<close> after \<open>est_malloc(100)\<close>, which returns 4808.\<close>

definition pool0_mem :: memory where
  "pool0_mem = store64 (store64 (store64 (store32 (store32 (store32 (\<lambda>_. 0)
     4800 1047858) 1052656 9) 4800 1047858) 1052648 4800) 4816 0) 4808 0"

definition pool0 :: MEMORY_POOL where
  "pool0 = \<lparr>adrs = 4096,
     stat = \<lparr>stat_total = 0, stat_used = 0, stat_free = 0, stat_frag = 0\<rparr>,
     prof = \<lparr>profiling = 0, prof_initial = 0, prof_max = 0, prof_min = 0\<rparr>,
     error_message = None, pool_size = 1048568, free_fli_bitmap = 64,
     free_sli_bitmap = (replicate 11 0)[9 := 1],
     free_blocks = (replicate 81 0)[79 := 4800],
     mem = pool0_mem\<rparr>"

definition pool1_mem :: memory where
  "pool1_mem = store32 (store64 (store64 (store64 (store32 (store32 (store32 (store32
     pool0_mem 4912 1047744) 4800 114) 4912 1047746) 4912 1047746) 1052648 4912)
     4928 0) 4920 0) 4800 115"

definition pool1 :: MEMORY_POOL where
  "pool1 = pool0\<lparr>free_blocks := (replicate 81 0)[79 := 4912], mem := pool1_mem\<rparr>"


section \<open>Proofs: leading zeros and size classes\<close>


lemmas config_defs = ALIGNMENT_MASK_def ESTALLOC_FLI_BIT_WIDTH_def ESTALLOC_SLI_BIT_WIDTH_def
  ESTALLOC_IGNORE_LSBS_def SIZE_FREE_BLOCKS_def ESTALLOC_MIN_MEMORY_BLOCK_SIZE_def
  sizeof_USED_BLOCK_def sizeof_FREE_BLOCK_def sizeof_pointer_def offsetof_next_free_def
  offsetof_prev_free_def MSB_BIT1_FLI_def MSB_BIT1_SLI_def

lemma unat_drop_bit_div: "unat (drop_bit k (x::'a::len word)) = unat x div 2 ^ k"
  by (simp only: unat_drop_bit_eq drop_bit_nat_def)

lemma drop_bit_word_eq_0: "(drop_bit k (x::'a::len word) = 0) = (unat x < 2 ^ k)"
  by (metis  drop_bit_eq_div unat_drop_bit_eq div_eq_0_iff unat_eq_0 power_not_zero zero_neq_numeral)

lemma unat_push_bit_small:
  "unat x * 2 ^ k < 2 ^ LENGTH('a) \<Longrightarrow> unat (push_bit k (x::'a::len word)) = unat x * 2 ^ k"
  by (simp only: unsigned_push_bit_eq push_bit_nat_def take_bit_nat_eq_self)

lemma nlz_step_inv:
  fixes s :: "nat \<times> 'a::len word"
  assumes "nlz_inv v lo s" and "t + k = LENGTH('a)" and "t \<le> lo + k"
  shows "nlz_inv v t (nlz_step t k s)"
proof (cases s)
  case (Pair n x)
  with assms(1) have n: "1 \<le> n" and x: "unat x = v * 2 ^ (n - 1)" and lo: "2 ^ lo \<le> unat x"
    by (simp_all add: nlz_inv_def)
  show ?thesis
  proof (cases "drop_bit t x = 0")
    case True
    then have "unat x < 2 ^ t" by (simp add: drop_bit_word_eq_0)
    then have "unat x * 2 ^ k < 2 ^ t * 2 ^ k" by simp
    then have small: "unat x * 2 ^ k < 2 ^ LENGTH('a)"
      using assms(2) by (simp add: power_add [symmetric])
    have "(2::nat) ^ t \<le> 2 ^ (lo + k)" using assms(3) by simp
    also have "\<dots> \<le> unat x * 2 ^ k" using lo by (simp add: power_add)
    finally have ge: "2 ^ t \<le> unat x * 2 ^ k" .
    have "v * 2 ^ (n - 1) * 2 ^ k = v * 2 ^ (n + k - 1)"
      using n by (simp add: power_add [symmetric])
    with True Pair small ge x n show ?thesis
      by (simp add: nlz_step_def nlz_inv_def unat_push_bit_small)
  next
    case False
    then have "2 ^ t \<le> unat x" by (simp add: drop_bit_word_eq_0)
    with False Pair n x show ?thesis by (simp add: nlz_step_def nlz_inv_def)
  qed
qed

lemma nlz_final:
  fixes x :: "'a::len word"
  assumes "nlz_inv v (LENGTH('a) - 2) (n, x)" "2 \<le> LENGTH('a)"
  shows "2 ^ (LENGTH('a) - 1) \<le> v * 2 ^ (n - unat (drop_bit (LENGTH('a) - 1) x))
       \<and> v * 2 ^ (n - unat (drop_bit (LENGTH('a) - 1) x)) < 2 ^ LENGTH('a)"
proof -
  from assms have n: "1 \<le> n" and x: "unat x = v * 2 ^ (n - 1)"
    and lo: "2 ^ (LENGTH('a) - 2) \<le> unat x"
    by (simp_all add: nlz_inv_def)
  have hi: "unat x < 2 ^ LENGTH('a)" by (rule unsigned_less)
  have L: "(2::nat) ^ LENGTH('a) = 2 * 2 ^ (LENGTH('a) - 1)"
    by (metis len_gt_0 power_minus_mult mult.commute)
  have L2: "(2::nat) ^ (LENGTH('a) - 1) = 2 * 2 ^ (LENGTH('a) - 2)"
    using assms(2)
    by (metis Suc_1 Suc_diff_Suc Suc_le_lessD power_Suc)
  show ?thesis
  proof (cases "unat x < 2 ^ (LENGTH('a) - 1)")
    case True
    then have "unat (drop_bit (LENGTH('a) - 1) x) = 0"
      by (simp add: unat_drop_bit_div)
    moreover have "v * 2 ^ n = 2 * unat x" using n x
      by (metis (no_types, lifting) le_add_diff_inverse mult.assoc mult.commute power_add power_one_right)
    ultimately show ?thesis using True lo L L2 by simp
  next
    case False
    then have "unat x div 2 ^ (LENGTH('a) - 1) = 1" using hi L
      by (metis (no_types, lifting) One_nat_def div_nat_eqI mult.commute mult_2_right nat_mult_1_right not_less plus_1_eq_Suc)
    then have "unat (drop_bit (LENGTH('a) - 1) x) = 1"
      by (simp add: unat_drop_bit_div)
    then show ?thesis using False hi x by simp
  qed
qed

lemma nlz16_bounds:
  assumes "x \<noteq> 0"
  shows "2 ^ 15 \<le> unat x * 2 ^ nlz16 x \<and> unat x * 2 ^ nlz16 x < 2 ^ 16"
proof -
  have "unat x \<noteq> 0" using assms by (simp add: unat_eq_0)
  then have "nlz_inv (unat x) 0 (1, x)" by (simp add: nlz_inv_def)
  then have "nlz_inv (unat x) 8 (nlz_step 8 8 (1, x))" by (rule nlz_step_inv) simp_all
  then have "nlz_inv (unat x) 12 (nlz_step 12 4 (nlz_step 8 8 (1, x)))" by (rule nlz_step_inv) simp_all
  then have "nlz_inv (unat x) 14 (nlz_step 14 2 (nlz_step 12 4 (nlz_step 8 8 (1, x))))"
    by (rule nlz_step_inv) simp_all
  then show ?thesis
    using assms nlz_final [where 'a = 16 and v = "unat x"]
    by (auto simp: nlz16_def split: prod.splits)
qed

lemma nlz8_bounds:
  assumes "x \<noteq> 0"
  shows "2 ^ 7 \<le> unat x * 2 ^ nlz8 x \<and> unat x * 2 ^ nlz8 x < 2 ^ 8"
proof -
  have "unat x \<noteq> 0" using assms by (simp add: unat_eq_0)
  then have "nlz_inv (unat x) 0 (1, x)" by (simp add: nlz_inv_def)
  then have "nlz_inv (unat x) 4 (nlz_step 4 4 (1, x))" by (rule nlz_step_inv) simp_all
  then have "nlz_inv (unat x) 6 (nlz_step 6 2 (nlz_step 4 4 (1, x)))"
    by (rule nlz_step_inv) simp_all
  then show ?thesis
    using assms nlz_final [where 'a = 8 and v = "unat x"]
    by (auto simp: nlz8_def split: prod.splits)
qed

text \<open>Position of the highest set bit, from the bounds.\<close>

lemma pow_bounds_pos:
  assumes "2 ^ (L - 1) \<le> u * 2 ^ n" "u * 2 ^ n < (2::nat) ^ L" "0 < u" "0 < L"
  shows "n < L \<and> 2 ^ (L - 1 - n) \<le> u \<and> u < 2 ^ (L - n)"
proof -
  have "(2::nat) ^ n \<le> u * 2 ^ n" using assms(3) by simp
  from this assms(2) have "(2::nat) ^ n < 2 ^ L" by (rule le_less_trans)
  then have n: "n < L" by (rule nat_power_less_imp_less [rotated]) simp
  then have e1: "(2::nat) ^ (L - 1) = 2 ^ (L - 1 - n) * 2 ^ n"
    by (simp add: power_add [symmetric])
  have e2: "(2::nat) ^ L = 2 ^ (L - n) * 2 ^ n"
    using n by (simp add: power_add [symmetric])
  from assms(1) e1 have "2 ^ (L - 1 - n) \<le> u" by simp
  moreover from assms(2) e2 have "u < 2 ^ (L - n)" by simp
  ultimately show ?thesis using n by simp
qed

lemma nlz16_pos:
  assumes "x \<noteq> 0"
  shows "nlz16 x < 16 \<and> 2 ^ (15 - nlz16 x) \<le> unat x \<and> unat x < 2 ^ (16 - nlz16 x)"
proof -
  have "0 < unat x" using assms by (simp add: unat_gt_0)
  with nlz16_bounds [OF assms] pow_bounds_pos [of 16 "unat x" "nlz16 x"]
  show ?thesis by simp
qed

lemma nlz8_pos:
  assumes "x \<noteq> 0"
  shows "nlz8 x < 8 \<and> 2 ^ (7 - nlz8 x) \<le> unat x \<and> unat x < 2 ^ (8 - nlz8 x)"
proof -
  have "0 < unat x" using assms by (simp add: unat_gt_0)
  with nlz8_bounds [OF assms] pow_bounds_pos [of 8 "unat x" "nlz8 x"]
  show ?thesis by simp
qed

lemma calc_overflow_iff: "calc_overflow s = (2 ^ 17 \<le> unat s)"
  by (simp add: calc_overflow_def config_defs drop_bit_word_eq_0 not_less)

lemma unat_ucast_mod:
  "unat (ucast (w::'a::len word) :: 'b::len word) = unat w mod 2 ^ LENGTH('b)"
  by (simp add: unsigned_ucast_eq take_bit_eq_mod)

lemma unat_ucast_drop8:
  assumes "unat (s::32 word) < 2 ^ 17"
  shows "unat (ucast (drop_bit 8 s) :: 16 word) = unat s div 256"
proof -
  have "unat s div 256 < 2 ^ 16" using assms by simp
  then show ?thesis
    by (simp add: unat_ucast_mod unat_drop_bit_div)
qed

lemma calc_fli_range:
  assumes "\<not> calc_overflow s"
  shows "calc_fli s \<le> 9 \<and>
         (if calc_fli s = 0 then unat s < 256
          else 2 ^ (calc_fli s + 7) \<le> unat s \<and> unat s < 2 ^ (calc_fli s + 8))"
proof -
  let ?x = "ucast (drop_bit 8 s) :: 16 word"
  have v: "unat s < 2 ^ 17" using assms by (simp add: calc_overflow_iff)
  have ux: "unat ?x = unat s div 256" using v by (rule unat_ucast_drop8)
  have f: "calc_fli s = 16 - nlz16 ?x" by (simp add: calc_fli_def config_defs)
  show ?thesis
  proof (cases "?x = 0")
    case True
    then have "unat s div 256 = 0" using ux by simp
    then have "unat s < 256" by simp
    with True f show ?thesis by (simp add: nlz16_def)
  next
    case False
    from nlz16_pos [OF False] have n: "nlz16 ?x < 16"
      and lo: "2 ^ (15 - nlz16 ?x) \<le> unat s div 256"
      and hi: "unat s div 256 < 2 ^ (16 - nlz16 ?x)"
      using ux by simp_all
    have fpos: "0 < calc_fli s" using f n by simp
    have e: "15 - nlz16 ?x = calc_fli s - 1" using f n by simp
    have "unat s div 256 < 2 ^ 9" using v by simp
    with lo e have "(2::nat) ^ (calc_fli s - 1) < 2 ^ 9" by simp
    then have "calc_fli s - 1 < 9" by (rule nat_power_less_imp_less [rotated]) simp
    then have f9: "calc_fli s \<le> 9" by simp
    have "2 ^ (calc_fli s - 1) * 256 \<le> unat s" using lo e
      by (simp add: less_eq_div_iff_mult_less_eq)
    moreover have "(2::nat) ^ (calc_fli s - 1) * 256 = 2 ^ (calc_fli s + 7)"
    proof -
      have "(2::nat) ^ (calc_fli s - 1) * 2 ^ 8 = 2 ^ (calc_fli s - 1 + 8)"
        by (simp only: power_add)
      moreover have "calc_fli s - 1 + 8 = calc_fli s + 7" using fpos by simp
      ultimately show ?thesis by simp
    qed
    moreover have "unat s < 2 ^ calc_fli s * 256" using hi f
      by (simp add: div_less_iff_less_mult)
    moreover have "(2::nat) ^ calc_fli s * 256 = 2 ^ (calc_fli s + 8)"
      by (simp add: power_add)
    ultimately show ?thesis using f9 fpos by simp
  qed
qed


lemma FLI_SLI_index: "s < 8 \<Longrightarrow> FLI (8 * f + s) = f \<and> SLI (8 * f + s) = s"
  by (simp add: FLI_def SLI_def config_defs drop_bit_eq_div take_bit_eq_mod)

lemma word_and_7: "unat ((w::32 word) AND 7) = unat w mod 8"
proof -
  have "w AND 7 = take_bit 3 w" by (simp add: take_bit_eq_mask mask_eq_exp_minus_1)
  moreover have "unat (take_bit 3 w) = take_bit 3 (unat w)" by (rule unsigned_take_bit_eq)
  ultimately show ?thesis by (simp only: take_bit_eq_mod) simp
qed

lemma calc_sli_eq: "calc_sli s = (unat s div 2 ^ calc_shift s) mod 8"
  by (simp add: calc_sli_def config_defs word_and_7 unat_drop_bit_div)

text \<open>The quotient that gives the second-level index lies in one octave.\<close>

lemma calc_quot_range:
  assumes "\<not> calc_overflow s"
  shows "if calc_fli s = 0 then unat s div 2 ^ calc_shift s < 8
         else 8 \<le> unat s div 2 ^ calc_shift s \<and> unat s div 2 ^ calc_shift s < 16"
proof (cases "calc_fli s = 0")
  case True
  with calc_fli_range [OF assms] have "unat s < 256" by simp
  then show ?thesis using True by (simp add: calc_shift_def config_defs)
next
  case False
  with calc_fli_range [OF assms]
  have lo: "2 ^ (calc_fli s + 7) \<le> unat s" and hi: "unat s < 2 ^ (calc_fli s + 8)" by simp_all
  have sh: "calc_shift s = calc_fli s + 4" using False by (simp add: calc_shift_def config_defs)
  have "(8::nat) * 2 ^ (calc_fli s + 4) = 2 ^ (calc_fli s + 7)" 
    by (simp add: power_add)
  then have "8 \<le> unat s div 2 ^ (calc_fli s + 4)" using lo
    by (simp add: less_eq_div_iff_mult_less_eq)
  moreover have "(16::nat) * 2 ^ (calc_fli s + 4) = 2 ^ (calc_fli s + 8)"
    by (simp add: power_add)
  then have "unat s div 2 ^ (calc_fli s + 4) < 16" using hi
    by (simp add: div_less_iff_less_mult)
  ultimately show ?thesis using False sh by simp
qed

lemma calc_index_le: "calc_index s \<le> 8 * calc_fli s + 7" if "\<not> calc_overflow s"
  using that by (simp add: calc_index_def calc_sli_eq config_defs push_bit_eq_mult) 

lemma calc_index_ge: "8 * calc_fli s \<le> calc_index s" if "\<not> calc_overflow s"
  using that by (simp add: calc_index_def config_defs push_bit_eq_mult)

lemma calc_index_bound: "calc_index s < 80"
proof (cases "calc_overflow s")
  case True
  then show ?thesis by (simp add: calc_index_def config_defs)
next
  case False
  with calc_fli_range [OF False] calc_index_le [OF False] show ?thesis by simp
qed

lemma mod8_octave: "8 \<le> q \<Longrightarrow> q < 16 \<Longrightarrow> q mod 8 = q - (8::nat)"
  by (simp add: le_mod_geq)

lemma calc_index_mono:
  assumes "s1 \<le> s2"
  shows "calc_index s1 \<le> calc_index s2"
proof (cases "calc_overflow s2")
  case True
  then have "calc_index s2 = 79" by (simp add: calc_index_def config_defs)
  with calc_index_bound [of s1] show ?thesis by simp
next
  case o2: False
  have v: "unat s1 \<le> unat s2" using assms by (simp add: word_le_nat_alt)
  with o2 have o1: "\<not> calc_overflow s1" by (simp add: calc_overflow_iff)
  note r1 = calc_fli_range [OF o1] and r2 = calc_fli_range [OF o2]
  have f: "calc_fli s1 \<le> calc_fli s2"
  proof (rule ccontr)
    assume "\<not> calc_fli s1 \<le> calc_fli s2"
    then have lt: "calc_fli s2 + 8 \<le> calc_fli s1 + 7" and nz: "calc_fli s1 \<noteq> 0" by simp_all
    from r1 nz have "2 ^ (calc_fli s1 + 7) \<le> unat s1" by simp
    moreover have "(2::nat) ^ (calc_fli s2 + 8) \<le> 2 ^ (calc_fli s1 + 7)"
      using lt by (rule power_increasing) simp
    moreover have "unat s2 < 2 ^ (calc_fli s2 + 8)"
    proof (cases "calc_fli s2 = 0")
      case True with r2 show ?thesis by simp
    next
      case False with r2 show ?thesis by simp
    qed
    ultimately show False using v by simp
  qed
  show ?thesis
  proof (cases "calc_fli s1 = calc_fli s2")
    case False
    with f have "8 * calc_fli s1 + 7 < 8 * calc_fli s2" by simp
    with calc_index_le [OF o1] calc_index_ge [OF o2] show ?thesis by simp
  next
    case True
    then have sh: "calc_shift s1 = calc_shift s2" by (simp add: calc_shift_def)
    have q: "unat s1 div 2 ^ calc_shift s2 \<le> unat s2 div 2 ^ calc_shift s2"
      using v by (rule div_le_mono)
    have "(unat s1 div 2 ^ calc_shift s2) mod 8 \<le> (unat s2 div 2 ^ calc_shift s2) mod 8"
      using calc_quot_range [OF o1] calc_quot_range [OF o2] q True sh
      by (cases "calc_fli s2 = 0") (simp_all add: mod8_octave)
    then show ?thesis using True sh o1 o2
      by (simp add: calc_index_def calc_sli_eq)
  qed
qed

lemma class_min_le:
  shows "class_min (calc_index s) \<le> unat s"
proof (cases "calc_overflow s")
  case True
  then have "2 ^ 17 \<le> unat s" by (simp add: calc_overflow_iff)
  moreover have "class_min 79 = 122880"
    by (simp add: class_min_def FLI_def SLI_def config_defs drop_bit_eq_div take_bit_eq_mod push_bit_eq_mult)
  ultimately show ?thesis using True by (simp add: calc_index_def config_defs)
next
  case False
  let ?q = "unat s div 2 ^ calc_shift s"
  have i: "calc_index s = 8 * calc_fli s + ?q mod 8"
    using False by (simp add: calc_index_def calc_sli_eq config_defs push_bit_eq_mult)
  have fs: "FLI (calc_index s) = calc_fli s" "SLI (calc_index s) = ?q mod 8"
    using FLI_SLI_index [of "?q mod 8" "calc_fli s"] i by simp_all
  have le: "?q * 2 ^ calc_shift s \<le> unat s" by simp
  show ?thesis
  proof (cases "calc_fli s = 0")
    case True
    with calc_quot_range [OF False] have "?q mod 8 = ?q" by simp
    with True fs le show ?thesis
      by (simp add: class_min_def calc_shift_def config_defs push_bit_eq_mult mult.commute)
  next
    case nz: False
    with calc_quot_range [OF False] have "8 + ?q mod 8 = ?q" by (simp add: mod8_octave)
    with nz fs le show ?thesis
      by (simp add: class_min_def calc_shift_def config_defs push_bit_eq_mult mult.commute)
  qed
qed

lemma calc_index_asserts_hold: "calc_index_asserts s"
proof (cases "calc_overflow s")
  case True then show ?thesis by (simp add: calc_index_asserts_def)
next
  case False
  with calc_fli_range [OF False] show ?thesis
    by (simp add: calc_index_asserts_def calc_sli_eq config_defs)
qed


text \<open>
  Claim C5. \<open>calc_index\<close> is monotone non-decreasing; every size lies at or above the
  nominal minimum of its class; hence a block whose class is strictly above the class of
  a request is large enough for the request.
\<close>

theorem calc_index_monotone:
  "(s1 \<le> s2 \<longrightarrow> calc_index s1 \<le> calc_index s2)
   \<and> class_min (calc_index s) \<le> unat s
   \<and> (calc_index alloc_size < calc_index block_size \<longrightarrow> alloc_size \<le> block_size)"
proof (intro conjI impI)
  assume "s1 \<le> s2"
  then show "calc_index s1 \<le> calc_index s2" by (rule calc_index_mono)
next
  show "class_min (calc_index s) \<le> unat s" by (rule class_min_le)
next
  assume lt: "calc_index alloc_size < calc_index block_size"
  show "alloc_size \<le> block_size"
  proof (rule ccontr)
    assume "\<not> alloc_size \<le> block_size"
    then have "block_size \<le> alloc_size" by simp
    then have "calc_index block_size \<le> calc_index alloc_size" by (rule calc_index_mono)
    with lt show False by simp
  qed
qed

lemma calc_index_100: "calc_index 100 = 3"
  by (simp add: calc_index_def calc_overflow_def calc_fli_def calc_sli_def calc_shift_def
      nlz16_def nlz_step_def config_defs)

lemma calc_index_1000: "calc_index 1000 = 23"
  by (simp add: calc_index_def calc_overflow_def calc_fli_def calc_sli_def calc_shift_def
      nlz16_def nlz_step_def config_defs)

theorem calc_index_monotone_witness:
  "(100 :: 32 word) \<le> 1000 \<and> calc_index 100 \<le> calc_index 1000
   \<and> class_min (calc_index 1000) \<le> unat (1000 :: 32 word)
   \<and> calc_index 100 < calc_index 1000"
  using calc_index_monotone [of 100 1000 1000 100 1000]
  by (simp add: calc_index_100 calc_index_1000)

text \<open>
  Claim C10. For every size, also 0 and the sizes past the overflow check,
  \<open>calc_index\<close> is below \<open>SIZE_FREE_BLOCKS = (FLI_BITS + 1) * 2^SLI_BITS\<close>, and the two
  assertions of \<open>calc_index\<close> hold. So in a pool header whose arrays have the declared
  lengths, the index that \<open>add_free_block\<close> and \<open>remove_free_block\<close> compute lies inside
  \<open>free_blocks\<close>, its row inside \<open>free_sli_bitmap\<close> and its bits inside the 16-bit and
  8-bit bitmaps, the assertion of \<open>add_free_block\<close> holds, and both functions keep
  the lengths.
\<close>

theorem calc_index_in_bounds:
  "calc_index s < SIZE_FREE_BLOCKS
   \<and> SIZE_FREE_BLOCKS = (ESTALLOC_FLI_BIT_WIDTH + 1) * 2 ^ ESTALLOC_SLI_BIT_WIDTH
   \<and> calc_index_asserts s
   \<and> FLI (calc_index s) \<le> ESTALLOC_FLI_BIT_WIDTH
   \<and> SLI (calc_index s) < 2 ^ ESTALLOC_SLI_BIT_WIDTH
   \<and> (length (free_blocks pool) = SIZE_FREE_BLOCKS + 1
        \<and> length (free_sli_bitmap pool) = ESTALLOC_FLI_BIT_WIDTH + 1 + 1
      \<longrightarrow> calc_index s < length (free_blocks pool)
        \<and> FLI (calc_index s) < length (free_sli_bitmap pool)
        \<and> length (free_blocks (add_free_block pool t)) = SIZE_FREE_BLOCKS + 1
        \<and> length (free_sli_bitmap (add_free_block pool t)) = ESTALLOC_FLI_BIT_WIDTH + 1 + 1
        \<and> length (free_blocks (remove_free_block pool t)) = SIZE_FREE_BLOCKS + 1
        \<and> length (free_sli_bitmap (remove_free_block pool t))
            = ESTALLOC_FLI_BIT_WIDTH + 1 + 1)"
proof -
  have b: "calc_index s < 80" by (rule calc_index_bound)
  then have f: "FLI (calc_index s) \<le> 9"
    by (simp add: FLI_def config_defs drop_bit_eq_div)
  have l: "SLI (calc_index s) < 8"
    by (simp add: SLI_def config_defs take_bit_eq_mod)
  have "length (free_blocks (add_free_block pool t)) = length (free_blocks pool)"
    "length (free_sli_bitmap (add_free_block pool t)) = length (free_sli_bitmap pool)"
    by (simp_all add: add_free_block_def Let_def)
  moreover have
    "length (free_blocks (remove_free_block pool t)) = length (free_blocks pool)"
    "length (free_sli_bitmap (remove_free_block pool t)) = length (free_sli_bitmap pool)"
    by (simp_all add: remove_free_block_def clear_bitmaps_def Let_def)
  ultimately show ?thesis
    using b f l calc_index_asserts_hold [of s] by (simp add: config_defs)
qed

theorem calc_index_in_bounds_witness:
  "length (free_blocks (the (est_init False (\<lambda>_. 0) 4096 1048575))) = SIZE_FREE_BLOCKS + 1
   \<and> length (free_sli_bitmap (the (est_init False (\<lambda>_. 0) 4096 1048575)))
       = ESTALLOC_FLI_BIT_WIDTH + 1 + 1
   \<and> calc_index 0xffffffff < length (free_blocks (the (est_init False (\<lambda>_. 0) 4096 1048575)))"
  using calc_index_in_bounds [of "0xffffffff" "the (est_init False (\<lambda>_. 0) 4096 1048575)"]
  by (simp add: est_init_def add_free_block_def Let_def config_defs sizeof_MEMORY_POOL_def)

section \<open>Proofs: memory\<close>

lemma byte_bit:
  "bit (push_bit k (ucast (ucast (drop_bit k (v::'a::len word)) :: 8 word)) :: 'a word) n
     \<longleftrightarrow> k \<le> n \<and> n < k + 8 \<and> bit v n"
  by (auto simp: bit_simps dest: bit_imp_le_length)

lemma byte_bit0:
  "bit (ucast (ucast (v::'a::len word) :: 8 word) :: 'a word) n \<longleftrightarrow> n < 8 \<and> bit v n"
  by (auto simp: bit_simps dest: bit_imp_le_length)

lemma load32_store32_same [simp]: "load32 (store32 m a v) a = v"
  unfolding load32_def store32_def
  apply (rule bit_word_eqI)
  apply (simp add: bit_or_iff byte_bit byte_bit0)
  apply arith
  done

lemma load64_store64_same [simp]: "load64 (store64 m a v) a = v"
  unfolding load64_def store64_def
  apply (rule bit_word_eqI)
  apply (simp add: bit_or_iff byte_bit byte_bit0)
  apply arith
  done

lemma store32_outside: "x < a \<or> a + 4 \<le> x \<Longrightarrow> store32 m a v x = m x"
  by (auto simp: store32_def)

lemma store64_outside: "x < a \<or> a + 8 \<le> x \<Longrightarrow> store64 m a v x = m x"
  by (auto simp: store64_def)

lemma fill_apply: "fill m p n v x = (if p \<le> x \<and> x < p + n then v else m x)"
  by (induction n) auto

lemma load32_cong:
  "(\<And>i. i < 4 \<Longrightarrow> m' (a + i) = m (a + i)) \<Longrightarrow> load32 m' a = load32 m a"
proof -
  assume h: "\<And>i. i < 4 \<Longrightarrow> m' (a + i) = m (a + i)"
  have "m' (a + 0) = m (a + 0)" "m' (a + 1) = m (a + 1)" "m' (a + 2) = m (a + 2)"
    "m' (a + 3) = m (a + 3)" by (rule h, simp)+
  then show ?thesis by (simp add: load32_def)
qed

lemma load64_cong:
  "(\<And>i. i < 8 \<Longrightarrow> m' (a + i) = m (a + i)) \<Longrightarrow> load64 m' a = load64 m a"
proof -
  assume h: "\<And>i. i < 8 \<Longrightarrow> m' (a + i) = m (a + i)"
  have "m' (a + 0) = m (a + 0)" "m' (a + 1) = m (a + 1)" "m' (a + 2) = m (a + 2)"
    "m' (a + 3) = m (a + 3)" "m' (a + 4) = m (a + 4)" "m' (a + 5) = m (a + 5)" 
    "m' (a + 6) = m (a + 6)" "m' (a + 7) = m (a + 7)" by (rule h, simp)+
  then show ?thesis by (simp add: load64_def)
qed

lemma same_on_load32: "same_on m m' lo hi \<Longrightarrow> lo \<le> a \<Longrightarrow> a + 4 \<le> hi \<Longrightarrow> load32 m' a = load32 m a"
  by (rule load32_cong) (simp add: same_on_def)

lemma same_on_load64: "same_on m m' lo hi \<Longrightarrow> lo \<le> a \<Longrightarrow> a + 8 \<le> hi \<Longrightarrow> load64 m' a = load64 m a"
  by (rule load64_cong) (simp add: same_on_def)

lemma load32_store32_disj:
  "a + 4 \<le> b \<or> b + 4 \<le> a \<Longrightarrow> load32 (store32 m a v) b = load32 m b"
  by (rule load32_cong) (auto simp: store32_outside)

lemma load32_store64_disj:
  "a + 8 \<le> b \<or> b + 4 \<le> a \<Longrightarrow> load32 (store64 m a v) b = load32 m b"
  by (rule load32_cong) (auto simp: store64_outside)

lemma load64_store32_disj:
  "a + 4 \<le> b \<or> b + 8 \<le> a \<Longrightarrow> load64 (store32 m a v) b = load64 m b"
  by (rule load64_cong) (auto simp: store32_outside)

lemma load64_store64_disj:
  "a + 8 \<le> b \<or> b + 8 \<le> a \<Longrightarrow> load64 (store64 m a v) b = load64 m b"
  by (rule load64_cong) (auto simp: store64_outside)

lemma load_ptr_store_ptr_same: "p < 2 ^ 64 \<Longrightarrow> load_ptr (store_ptr m a p) a = p"
  by (simp add: load_ptr_def store_ptr_def unat_of_nat)


section \<open>Proofs: words of block headers\<close>

lemma word_and_7_0: "((w::32 word) AND NOT 7) AND 7 = 0"
  by (simp add: word_bw_assocs)

lemma unat_block_size_mod8: "unat ((w::32 word) AND NOT 7) mod 8 = 0"
proof -
  have "unat ((w AND NOT 7) AND 7) = 0" by (simp only: word_and_7_0 unat_0)
  then show ?thesis by (simp only: word_and_7)
qed

lemma unat_neg:
  assumes "(a::32 word) \<noteq> 0"
  shows "unat (- a) = 4294967296 - unat a"
proof -
  have z: "unat (a + (- a)) = 0" by simp
  have "0 < unat a" using assms by (simp add: unat_gt_0)
  moreover have "unat a < 4294967296" "unat (- a) < 4294967296"
    using unsigned_less [of a, where 'a = nat] unsigned_less [of "- a", where 'a = nat]
    by simp_all
  ultimately show ?thesis
    using z unfolding unat_plus_if' [of a "- a"] by (simp split: if_splits)
qed

lemma unat_neg_and_7:
  "unat (- (a::32 word) AND 7) = (4294967296 - unat a) mod 8"
proof (cases "a = 0")
  case True then show ?thesis by simp
next
  case False
  then show ?thesis by (simp add: word_and_7 unat_neg)
qed

lemma round_up8:
  fixes x :: nat
  assumes "r = x + (8 - x mod 8) mod 8"
  shows "r mod 8 = 0 \<and> x \<le> r \<and> r < x + 8"
proof -
  define q k where "q = x div 8" and "k = x mod 8"
  have x: "x = 8 * q + k" and k: "k < 8" by (simp_all add: q_def k_def)
  have r: "r = x + (8 - k) mod 8" using assms by (simp add: k_def)
  show ?thesis
  proof (cases "k = 0")
    case True
    with r x show ?thesis by simp
  next
    case False
    with k have e: "(8 - k) mod 8 = 8 - k" by simp
    with r x k have "r = 8 * (q + 1)" by simp
    then have "r mod 8 = 0" by simp
    moreover have "x \<le> r \<and> r < x + 8" using r e False k by simp
    ultimately show ?thesis by simp
  qed
qed

lemma neg_mod8:
  fixes x :: nat
  assumes "8 dvd N" "x \<le> N"
  shows "(N - x) mod 8 = (8 - x mod 8) mod 8"
proof -
  obtain n where N: "N = 8 * n" using assms(1) by (auto simp: dvd_def)
  define q k where "q = x div 8" and "k = x mod 8"
  have x: "x = 8 * q + k" and k: "k < 8" by (simp_all add: q_def k_def)
  show ?thesis
  proof (cases "k = 0")
    case True
    with N x have "N - x = 8 * (n - q)" by (simp add: diff_mult_distrib2)
    then have "(N - x) mod 8 = 0" by simp
    with True show ?thesis by (simp add: k_def)
  next
    case False
    have lt: "q < n" using x N assms(2) False by linarith
    then obtain d where d: "n = Suc (q + d)" by (auto dest: less_imp_Suc_add)
    have "N - x = 8 * d + (8 - k)" using N x d k by simp
    then have "(N - x) mod 8 = (8 - k) mod 8" by simp
    then show ?thesis by (simp add: k_def)
  qed
qed

lemma align_up_unat:
  assumes "unat (a::32 word) \<le> 4294967288"
  shows "unat (a + (- a AND 7)) mod 8 = 0 \<and> unat a \<le> unat (a + (- a AND 7))
         \<and> unat (a + (- a AND 7)) < unat a + 8"
proof -
  have e: "(4294967296 - unat a) mod 8 = (8 - unat a mod 8) mod 8"
    using assms by (intro neg_mod8) simp_all
  define r where "r = unat a + (8 - unat a mod 8) mod 8"
  note ru = round_up8 [OF r_def]
  then have "r < 4294967296" using assms by simp
  then have "unat (a + (- a AND 7)) = r"
    by (simp add: unat_word_ariths unat_neg_and_7 e r_def)
  with ru show ?thesis by simp
qed



section \<open>Proofs: results of the operations\<close>

lemma malloc_split_block_result:
  "malloc_split_block dbg pool target alloc_size = Some (pool', r)
   \<Longrightarrow> r = target + sizeof_USED_BLOCK"
  by (auto simp: malloc_split_block_def Let_def bind_eq_Some_conv split: if_splits)

lemma malloc_found_target_block_result:
  "malloc_found_target_block dbg pool target alloc_size index fli sli = Some (pool', r)
   \<Longrightarrow> r = target + sizeof_USED_BLOCK"
  by (auto simp: malloc_found_target_block_def Let_def split: if_splits
      dest: malloc_split_block_result)

lemma malloc_found_fli_sli_null:
  "malloc_found_fli_sli dbg pool alloc_size fli sli = Some (pool', NULL) \<Longrightarrow> pool' = pool"
  by (auto simp: malloc_found_fli_sli_def Let_def sizeof_USED_BLOCK_def split: if_splits
      dest: malloc_found_target_block_result)

lemma est_malloc_null:
  "est_malloc dbg pool sz = Some (pool', NULL) \<Longrightarrow> pool' = pool"
  unfolding est_malloc_def Let_def
  by (auto simp: sizeof_USED_BLOCK_def bind_eq_Some_conv split: if_splits
      dest: malloc_found_target_block_result malloc_found_fli_sli_null malloc_split_block_result)

lemma est_calloc_null:
  "est_calloc dbg pool nmemb sz = Some (pool', NULL) \<Longrightarrow> pool' = pool"
  by (auto simp: est_calloc_def Let_def bind_eq_Some_conv split: if_splits
      dest: est_malloc_null)

lemma realloc_shrink_result:
  "realloc_shrink dbg pool ptr alloc_size = Some (pool', r) \<Longrightarrow> r = ptr"
  by (auto simp: realloc_shrink_def Let_def bind_eq_Some_conv split: if_splits)

lemma realloc_alloc_and_copy_null:
  "realloc_alloc_and_copy dbg pool ptr sz = Some (pool', NULL) \<Longrightarrow> pool' = pool"
  by (auto simp: realloc_alloc_and_copy_def Let_def bind_eq_Some_conv split: if_splits
      dest: est_malloc_null)

lemma est_realloc_null:
  "est_realloc dbg pool ptr sz = Some (pool', NULL) \<Longrightarrow> pool' = pool"
  unfolding est_realloc_def Let_def
  by (auto simp: bind_eq_Some_conv split: if_splits
      dest: est_malloc_null realloc_alloc_and_copy_null realloc_shrink_result)

lemma est_permalloc_null:
  "est_permalloc dbg pool sz = Some (pool', NULL) \<Longrightarrow> pool' = pool"
  unfolding est_permalloc_def Let_def
  by (auto simp: bind_eq_Some_conv sizeof_USED_BLOCK_def split: if_splits
      dest: est_malloc_null)

lemma PROFILE_same: "PROFILE dbg pool = Some pool' \<Longrightarrow> pool' = pool"
  by (auto simp: PROFILE_def take_profile_def Let_def bind_eq_Some_conv split: if_splits)

lemma PROFILE_off: "dbg \<longrightarrow> profiling (prof pool) = 0 \<Longrightarrow> PROFILE dbg pool = Some pool"
  by (auto simp: PROFILE_def)

lemma take_profile_same: "take_profile pool = Some pool' \<Longrightarrow> pool' = pool"
  by (auto simp: take_profile_def Let_def bind_eq_Some_conv split: if_splits)

lemma est_start_profiling_same: "est_start_profiling pool = Some pool' \<Longrightarrow> pool' = pool"
  by (auto simp: est_start_profiling_def Let_def bind_eq_Some_conv split: if_splits
      dest: PROFILE_same)

lemma est_start_profiling_off:
  "profiling (prof pool) = 0 \<Longrightarrow> est_start_profiling pool = Some pool"
  by (simp add: est_start_profiling_def PROFILE_def)

lemma add_free_block_fields [simp]:
  "prof (add_free_block pool t) = prof pool"
  "adrs (add_free_block pool t) = adrs pool"
  "pool_size (add_free_block pool t) = pool_size pool"
  "stat (add_free_block pool t) = stat pool"
  "error_message (add_free_block pool t) = error_message pool"
  "length (free_blocks (add_free_block pool t)) = length (free_blocks pool)"
  "length (free_sli_bitmap (add_free_block pool t)) = length (free_sli_bitmap pool)"
  by (simp_all add: add_free_block_def Let_def)

lemma clear_bitmaps_fields [simp]:
  "prof (clear_bitmaps pool f s) = prof pool"
  "adrs (clear_bitmaps pool f s) = adrs pool"
  "pool_size (clear_bitmaps pool f s) = pool_size pool"
  "stat (clear_bitmaps pool f s) = stat pool"
  "error_message (clear_bitmaps pool f s) = error_message pool"
  "mem (clear_bitmaps pool f s) = mem pool"
  "free_blocks (clear_bitmaps pool f s) = free_blocks pool"
  "length (free_sli_bitmap (clear_bitmaps pool f s)) = length (free_sli_bitmap pool)"
  by (simp_all add: clear_bitmaps_def Let_def)

lemma remove_free_block_fields [simp]:
  "prof (remove_free_block pool t) = prof pool"
  "adrs (remove_free_block pool t) = adrs pool"
  "pool_size (remove_free_block pool t) = pool_size pool"
  "stat (remove_free_block pool t) = stat pool"
  "error_message (remove_free_block pool t) = error_message pool"
  "length (free_blocks (remove_free_block pool t)) = length (free_blocks pool)"
  "length (free_sli_bitmap (remove_free_block pool t)) = length (free_sli_bitmap pool)"
  by (simp_all add: remove_free_block_def Let_def)

lemma BPOOL_fields [simp]:
  "BPOOL_TOP dbg (add_free_block pool t) = BPOOL_TOP dbg pool"
  "BPOOL_END (add_free_block pool t) = BPOOL_END pool"
  "BPOOL_TOP dbg (remove_free_block pool t) = BPOOL_TOP dbg pool"
  "BPOOL_END (remove_free_block pool t) = BPOOL_END pool"
  "BPOOL_TOP dbg (clear_bitmaps pool f s) = BPOOL_TOP dbg pool"
  "BPOOL_END (clear_bitmaps pool f s) = BPOOL_END pool"
  "BPOOL_TOP dbg (pool\<lparr>mem := m\<rparr>) = BPOOL_TOP dbg pool"
  "BPOOL_END (pool\<lparr>mem := m\<rparr>) = BPOOL_END pool"
  by (simp_all add: BPOOL_TOP_def BPOOL_END_def)

text \<open>Shrinking in place.\<close>

lemma realloc_shrink_returns:
  assumes "alloc_size \<le> BLOCK_SIZE (mem pool) (BLOCK_ADRS ptr)"
    and "dbg \<longrightarrow> profiling (prof pool) = 0"
  shows "\<exists>pool'. realloc_shrink dbg pool ptr alloc_size = Some (pool', ptr)"
proof -
  let ?t = "BLOCK_ADRS ptr" and ?B = "BLOCK_SIZE (mem pool) (BLOCK_ADRS ptr)"
  show ?thesis
  proof (cases "?B - alloc_size \<le> ESTALLOC_MIN_MEMORY_BLOCK_SIZE")
    case True
    with assms show ?thesis
      by (auto simp: realloc_shrink_def split_block_def Let_def PROFILE_def)
  next
    case False
    then have "?B - alloc_size \<noteq> 0" by auto
    then have "alloc_size \<noteq> ?B" by auto
    with assms(1) have "alloc_size < ?B" by simp
    then have lt: "unat alloc_size < unat ?B" by (simp add: word_less_nat_alt)
    from False assms lt show ?thesis
      by (auto simp: realloc_shrink_def split_block_def Let_def PROFILE_def merge_block_def
          PHYS_NEXT_def)
  qed
qed

lemma request_alloc_size_fits:
  assumes B8: "unat B mod 8 = 0"
    and n: "unat n + 40 \<le> unat (B::32 word)"
  shows "request_alloc_size n \<le> B"
proof -
  have Bl: "unat B < 4294967296" using unsigned_less [of B, where 'a = nat] by simp
  let ?a1 = "n + 8 :: 32 word"
  have a1: "unat ?a1 = unat n + 8" using n Bl by (simp add: unat_word_ariths)
  then have "unat ?a1 \<le> 4294967288" using n Bl by simp
  note al = align_up_unat [OF this]
  let ?a2 = "?a1 + (- ?a1 AND 7)"
  have "unat ?a2 \<le> unat B"
  proof (rule ccontr)
    assume "\<not> unat ?a2 \<le> unat B"
    then have "unat B < unat ?a2" by simp
    moreover from al B8 have "8 dvd unat ?a2" "8 dvd unat B" by (simp_all add: dvd_eq_mod_eq_0)
    ultimately have "unat B + 8 \<le> unat ?a2" by (auto simp: dvd_def)
    with al a1 n show False by simp
  qed
  then have "?a2 \<le> B" by (simp add: word_le_nat_alt)
  moreover have "32 \<le> B" using n by (simp add: word_le_nat_alt)
  ultimately show ?thesis
    by (simp add: request_alloc_size_def Let_def config_defs)
qed

lemma est_realloc_shrinks_in_place:
  assumes ptr: "ptr \<noteq> NULL"
    and live: "of_nat sizeof_USED_BLOCK \<le> BLOCK_SIZE (mem pool) (BLOCK_ADRS ptr)"
    and n: "n \<le> est_usable_size (mem pool) ptr"
    and room: "ESTALLOC_MIN_MEMORY_BLOCK_SIZE \<le> est_usable_size (mem pool) ptr - n"
    and prof0: "dbg \<longrightarrow> profiling (prof pool) = 0"
  shows "\<exists>pool'. est_realloc dbg pool ptr n = Some (pool', ptr)"
proof -
  let ?B = "BLOCK_SIZE (mem pool) (BLOCK_ADRS ptr)"
  have B8: "8 \<le> unat ?B" using live by (simp add: word_le_nat_alt config_defs)
  then have u: "unat (est_usable_size (mem pool) ptr) = unat ?B - 8"
    by (simp add: est_usable_size_def config_defs unat_sub word_le_nat_alt)
  have nle: "unat n \<le> unat ?B - 8" using n u by (simp add: word_le_nat_alt)
  then have "unat (est_usable_size (mem pool) ptr - n) = unat ?B - 8 - unat n"
    using n u by (simp add: unat_sub)
  with room have "32 \<le> unat ?B - 8 - unat n"
    by (simp add: word_le_nat_alt config_defs)
  then have "unat n + 40 \<le> unat ?B" by simp
  moreover have "unat ?B mod 8 = 0"
    by (simp only: BLOCK_SIZE_def ALIGNMENT_MASK_def unat_block_size_mod8)
  ultimately have "request_alloc_size n \<le> ?B" by (intro request_alloc_size_fits)
  then have "\<not> request_alloc_size n > ?B" by simp
  with ptr realloc_shrink_returns [OF \<open>request_alloc_size n \<le> ?B\<close> prof0]
  show ?thesis by (simp add: est_realloc_def Let_def)
qed

section \<open>Proofs: the example pools\<close>

lemmas mem_simps = load32_store32_disj load32_store64_disj load64_store32_disj load64_store64_disj
  load_ptr_def store_ptr_def

lemmas block_defs = BLOCK_SIZE_def PHYS_NEXT_def SET_USED_BLOCK_def SET_FREE_BLOCK_def
  IS_USED_BLOCK_def IS_FREE_BLOCK_def SET_PREV_USED_def SET_PREV_FREE_def IS_PREV_USED_def
  IS_PREV_FREE_def next_free_def prev_free_def set_next_free_def set_prev_free_def BLOCK_ADRS_def

lemmas calc_defs = calc_index_def calc_overflow_def calc_fli_def calc_sli_def calc_shift_def
  nlz16_def nlz8_def nlz_step_def FLI_def SLI_def

lemma calc_index_examples:
  "calc_index 112 = 3" "calc_index 1047744 = 79" "calc_index 1047856 = 79"
  "calc_index 2000008 = 79"
  by (simp_all add: calc_defs config_defs)

lemma request_alloc_size_examples:
  "request_alloc_size 100 = 112" "request_alloc_size 2000000 = 2000008"
  by (simp_all add: request_alloc_size_def config_defs Let_def)

lemma nlz_examples: "nlz16 64 = 9" "nlz8 1 = 7"
  by (simp_all add: calc_defs)

lemma est_init_pool0: "est_init False (\<lambda>_. 0) 4096 1048575 = Some pool0"
  by (simp add: est_init_def add_free_block_def Let_def sizeof_MEMORY_POOL_def BPOOL_TOP_def
     config_defs block_defs mem_simps calc_index_examples drop_bit_eq_div take_bit_eq_mod
     FLI_def SLI_def pool0_def pool0_mem_def)

lemma pool0_load [simp]:
  "load32 pool0_mem 4800 = 1047858"
  "load64 pool0_mem 4808 = 0"
  "load64 pool0_mem 4816 = 0"
  "load32 pool0_mem 1052656 = 9"
  by (simp_all add: pool0_mem_def mem_simps)

lemma est_malloc_pool0_too_large: "est_malloc False pool0 2000000 = Some (pool0, NULL)"
  apply (simp add: est_malloc_def Let_def request_alloc_size_examples calc_index_examples)
  apply (simp add: pool0_def block_defs config_defs FLI_def SLI_def drop_bit_eq_div take_bit_eq_mod)
  apply (subst first_fit.simps)
  apply (simp add: block_defs config_defs load_ptr_def)
  apply (subst first_fit.simps)
  apply (simp add: pool0_def)
  done

lemma est_malloc_pool0_100: "est_malloc False pool0 100 = Some (pool1, 4808)"
  by (simp add: est_malloc_def Let_def request_alloc_size_examples calc_index_examples
      pool0_def block_defs config_defs FLI_def SLI_def drop_bit_eq_div take_bit_eq_mod
      nlz_examples malloc_found_fli_sli_def malloc_found_target_block_def clear_bitmaps_def
      malloc_split_block_def split_block_def Let_def add_free_block_def mem_simps
      PROFILE_def pool1_def pool1_mem_def)

lemma pool1_load [simp]:
  "load32 pool1_mem 4800 = 115"
  "load32 pool1_mem 4912 = 1047746"
  "load64 pool1_mem 4920 = 0"
  "load64 pool1_mem 4928 = 0"
  by (simp_all add: pool1_mem_def mem_simps)

lemma est_realloc_pool1_too_large: "est_realloc False pool1 4808 2000000 = Some (pool1, NULL)"
  apply (simp add: est_realloc_def Let_def request_alloc_size_examples realloc_alloc_and_copy_def)
  apply (simp add: pool1_def pool0_def block_defs config_defs)
  apply (simp add: est_malloc_def Let_def request_alloc_size_examples calc_index_examples
      block_defs config_defs FLI_def SLI_def drop_bit_eq_div take_bit_eq_mod)
  apply (subst first_fit.simps)
  apply (simp add: block_defs config_defs load_ptr_def)
  apply (subst first_fit.simps)
  apply simp
  done

section \<open>Claims C2, C7 and C9\<close>

text \<open>
  Claim C2. Whenever \<open>est_malloc\<close>, \<open>est_calloc\<close>, \<open>est_realloc\<close> or \<open>est_permalloc\<close>
  returns \<open>NULL\<close>, the pool (its header and every byte of its memory) is the pool before
  the call; so after \<open>est_realloc\<close> returned \<open>NULL\<close> the block of \<open>p\<close> and its payload
  are as before.
\<close>

theorem nil_return_leaves_pool_unchanged:
  "(est_malloc dbg pool n = Some (pool', NULL) \<longrightarrow> pool' = pool)
   \<and> (est_calloc dbg pool k n = Some (pool', NULL) \<longrightarrow> pool' = pool)
   \<and> (est_realloc dbg pool p n = Some (pool', NULL) \<longrightarrow>
        pool' = pool \<and> mem pool' = mem pool
        \<and> load32 (mem pool') (BLOCK_ADRS p) = load32 (mem pool) (BLOCK_ADRS p))
   \<and> (est_permalloc dbg pool n = Some (pool', NULL) \<longrightarrow> pool' = pool)"
  by (auto dest: est_malloc_null est_calloc_null est_realloc_null est_permalloc_null)

theorem nil_return_leaves_pool_unchanged_witness:
  "est_init False (\<lambda>_. 0) 4096 1048575 = Some pool0
   \<and> est_malloc False pool0 2000000 = Some (pool0, NULL)
   \<and> est_malloc False pool0 100 = Some (pool1, 4808)
   \<and> est_realloc False pool1 4808 2000000 = Some (pool1, NULL)"
  using nil_return_leaves_pool_unchanged [of False pool0 2000000 pool0]
    nil_return_leaves_pool_unchanged [of False pool1 2000000 pool1 _ 4808]
  by (simp add: est_init_pool0 est_malloc_pool0_too_large est_malloc_pool0_100
      est_realloc_pool1_too_large)

text \<open>
  Claim C7. For a pointer \<open>p\<close> to a block (not \<open>NULL\<close>, the block at least a header
  long) with usable size \<open>u\<close>, and \<open>n \<le> u\<close> with \<open>u - n\<close> at least the minimum block
  size, \<open>est_realloc(pool, p, n)\<close> returns \<open>p\<close>. With \<^verbatim>\<open>ESTALLOC_DEBUG\<close> the call ends
  in \<^verbatim>\<open>PROFILE()\<close>, which returns at once while the profiling flag is clear.
\<close>

theorem realloc_shrinks_in_place:
  "ptr \<noteq> NULL \<Longrightarrow>
   of_nat sizeof_USED_BLOCK \<le> BLOCK_SIZE (mem pool) (BLOCK_ADRS ptr) \<Longrightarrow>
   n \<le> est_usable_size (mem pool) ptr \<Longrightarrow>
   ESTALLOC_MIN_MEMORY_BLOCK_SIZE \<le> est_usable_size (mem pool) ptr - n \<Longrightarrow>
   dbg \<longrightarrow> profiling (prof pool) = 0 \<Longrightarrow>
   \<exists>pool'. est_realloc dbg pool ptr n = Some (pool', ptr)"
  by (rule est_realloc_shrinks_in_place)

theorem realloc_shrinks_in_place_witness:
  "est_malloc False pool0 100 = Some (pool1, 4808)
   \<and> est_usable_size (mem pool1) 4808 = 104
   \<and> (\<exists>pool'. est_realloc False pool1 4808 8 = Some (pool', 4808))"
proof -
  have b: "BLOCK_SIZE (mem pool1) (BLOCK_ADRS 4808) = 112"
    by (simp add: pool1_def block_defs config_defs)
  then have u: "est_usable_size (mem pool1) 4808 = 104"
    by (simp add: est_usable_size_def config_defs)
  have "profiling (prof pool1) = 0" by (simp add: pool1_def pool0_def)
  with realloc_shrinks_in_place [of 4808 pool1 8 False] b u
  have "\<exists>pool'. est_realloc False pool1 4808 8 = Some (pool', 4808)"
    by (simp add: config_defs)
  with u est_malloc_pool0_100 show ?thesis by simp
qed

text \<open>
  Claim C9 fails on the code. \<open>est_start_profiling\<close> sets the flag in a copy of the
  profile structure (\<^verbatim>\<open>ESTALLOC_PROF prof = est->prof;\<close>) and never stores the copy,
  and \<open>take_profile\<close> does the same with the minimum and the maximum: on the pool that
  \<open>est_init\<close> makes of 1 MiB at address 4096 (with \<^verbatim>\<open>ESTALLOC_DEBUG\<close>),
  \<open>est_start_profiling\<close> returns the pool as it was, the profiling flag still 0.
\<close>

theorem est_start_profiling_sets_no_flag:
  "\<exists>pool. est_init True (\<lambda>_. 0) 4096 1048575 = Some pool
     \<and> est_start_profiling pool = Some pool
     \<and> profiling (prof pool) = 0"
  by (simp add: est_init_def Let_def config_defs sizeof_MEMORY_POOL_def est_start_profiling_off)

end
